theory Spec2Isabelle
  imports Main "HOL-Library.Sublist"
begin

section \<open>SQL text values and the built-in functions the migrations call\<close>

text \<open>
  A PostgreSQL \<^verbatim>\<open>text\<close> value that may be NULL is a \<^typ>\<open>string option\<close>
  (\<^term>\<open>None\<close> is NULL). The built-ins below are the ones the provisioning functions
  use; each is strict (NULL in, NULL out), which the callers express with
  \<^term>\<open>map_option\<close> and \<open>concat_null\<close>.
\<close>

definition split_part_at :: "string \<Rightarrow> string" where
  \<comment> \<open>\<^verbatim>\<open>split_part(s, '@', 1)\<close>: the text before the first \<^verbatim>\<open>@\<close>, all of it when there is none\<close>
  "split_part_at s = takeWhile (\<lambda>c. c \<noteq> CHR ''@'') s"

definition trim :: "string \<Rightarrow> string" where
  \<comment> \<open>\<^verbatim>\<open>trim(s)\<close>: spaces removed at both ends\<close>
  "trim s = rev (dropWhile (\<lambda>c. c = CHR '' '') (rev (dropWhile (\<lambda>c. c = CHR '' '') s)))"

definition nullif_empty :: "string option \<Rightarrow> string option" where
  \<comment> \<open>\<^verbatim>\<open>NULLIF(x, '')\<close>\<close>
  "nullif_empty x = (if x = Some [] then None else x)"

definition concat_null :: "string option \<Rightarrow> string option \<Rightarrow> string option" where
  \<comment> \<open>the operator \<^verbatim>\<open>||\<close>: NULL when either side is NULL\<close>
  "concat_null a b =
     (case a of None \<Rightarrow> None
      | Some x \<Rightarrow> (case b of None \<Rightarrow> None | Some y \<Rightarrow> Some (x @ y)))"

definition coalesce :: "'a option \<Rightarrow> 'a option \<Rightarrow> 'a option" where
  \<comment> \<open>\<^verbatim>\<open>COALESCE(a, b)\<close>\<close>
  "coalesce a b = (case a of None \<Rightarrow> b | Some x \<Rightarrow> Some x)"

definition replace_char :: "char \<Rightarrow> string \<Rightarrow> string \<Rightarrow> string" where
  \<comment> \<open>\<^verbatim>\<open>replace(s, c, r)\<close> for a one-character pattern \<open>c\<close>\<close>
  "replace_char c r s = concat (map (\<lambda>x. if x = c then r else [x]) s)"

definition lower_char :: "char \<Rightarrow> char" where
  "lower_char c =
     (let n = (of_char c :: nat) in if 65 \<le> n \<and> n \<le> 90 then char_of (n + 32) else c)"

definition lower_c_locale :: "string \<Rightarrow> string" where
  \<comment> \<open>\<^verbatim>\<open>lower(s)\<close> in a database whose locale is \<^verbatim>\<open>C\<close>: the ASCII letters change, every
     other byte stays\<close>
  "lower_c_locale s = map lower_char s"

definition digit_char :: "nat \<Rightarrow> char" where
  "digit_char d = char_of (48 + d)"

fun nat_to_text :: "nat \<Rightarrow> string" where
  \<comment> \<open>the cast \<^verbatim>\<open>n::text\<close> of a non-negative integer: its decimal digits\<close>
  "nat_to_text n =
     (if n < 10 then [digit_char n] else nat_to_text (n div 10) @ [digit_char (n mod 10)])"

declare nat_to_text.simps [simp del]

section \<open>The table \<^verbatim>\<open>public.users\<close>\<close>

text \<open>
  \<^verbatim>\<open>
  CREATE TABLE public.users (
    id uuid PRIMARY KEY DEFAULT gen_random_uuid(),
    auth_user_id text UNIQUE NOT NULL,
    username text UNIQUE NOT NULL,
    email text UNIQUE NOT NULL,
    full_name text,
    created_at timestamptz DEFAULT now(),
    updated_at timestamptz DEFAULT now());
  \<close>
  The table is the list of its rows, in insertion order. The primary key is called
  \<open>row_id\<close> here (\<open>id\<close> is the identity function of HOL). Timestamps are natural
  numbers.
\<close>

record users_row =
  row_id :: string
  auth_user_id :: string
  username :: string
  email :: string
  full_name :: "string option"
  created_at :: nat
  updated_at :: nat

type_synonym users_table = "users_row list"

datatype users_column = Col_id | Col_auth_user_id | Col_username | Col_email

datatype sql_error =
    Not_null_violation users_column
  | Unique_violation users_column
  | Raise_exception "string option" sql_error
    \<comment> \<open>\<^verbatim>\<open>RAISE EXCEPTION 'Failed to create user profile for %: %', NEW.email, SQLERRM\<close>\<close>

text \<open>
  What the functions read from outside the table: the values \<^verbatim>\<open>gen_random_uuid()\<close>
  gives to the successive INSERT statements of one call, the transaction time \<^verbatim>\<open>now()\<close>,
  the successive values of \<^verbatim>\<open>floor(random() * 1000)\<close> (integers from 0 to 999), and the
  function \<^verbatim>\<open>lower\<close>, which depends on the locale of the database: the model takes it as
  it is given and assumes nothing about it.
\<close>

record db_env =
  gen_random_uuid :: "nat \<Rightarrow> string"
  now :: nat
  random_draw :: "nat \<Rightarrow> nat"
  lower :: "string \<Rightarrow> string"

definition insert_users ::
  "users_table \<Rightarrow> string \<Rightarrow> nat \<Rightarrow> string option \<Rightarrow> string option \<Rightarrow> string option \<Rightarrow>
   string option \<Rightarrow> sql_error + (users_row \<times> users_table)" where
  \<comment> \<open>\<^verbatim>\<open>INSERT INTO public.users (auth_user_id, username, email, full_name, ...) VALUES (...)
     RETURNING *\<close>: the NOT NULL columns first, then the unique indexes in the order of
     their creation. A refused row leaves the table as it was.\<close>
  "insert_users tbl new_row_id ts a u e f =
     (case a of None \<Rightarrow> Inl (Not_null_violation Col_auth_user_id) | Some a' \<Rightarrow>
      (case u of None \<Rightarrow> Inl (Not_null_violation Col_username) | Some u' \<Rightarrow>
       (case e of None \<Rightarrow> Inl (Not_null_violation Col_email) | Some e' \<Rightarrow>
          if new_row_id \<in> set (map row_id tbl) then Inl (Unique_violation Col_id)
          else if a' \<in> set (map auth_user_id tbl) then Inl (Unique_violation Col_auth_user_id)
          else if u' \<in> set (map username tbl) then Inl (Unique_violation Col_username)
          else if e' \<in> set (map email tbl) then Inl (Unique_violation Col_email)
          else
            (let r = \<lparr>row_id = new_row_id, auth_user_id = a', username = u', email = e',
                       full_name = f, created_at = ts, updated_at = ts\<rparr>
             in Inr (r, tbl @ [r])))))"

section \<open>\<^verbatim>\<open>get_or_create_user_profile(user_auth_id text)\<close>, the Clerk migration\<close>

text \<open>
  The claims the function reads from \<^verbatim>\<open>auth.jwt()\<close> with \<^verbatim>\<open>->>\<close>: a key that is missing
  (or JSON null) reads as NULL.
\<close>

record jwt_claims =
  jwt_email :: "string option"
  jwt_given_name :: "string option"
  jwt_family_name :: "string option"
  jwt_name :: "string option"

definition clerk_full_name :: "jwt_claims \<Rightarrow> string option" where
  \<comment> \<open>the block \<^verbatim>\<open>IF _full_name IS NULL OR _full_name = '' THEN ... END IF\<close>\<close>
  "clerk_full_name jwt =
     (if jwt_name jwt = None \<or> jwt_name jwt = Some [] then
        (if jwt_given_name jwt \<noteq> None \<and> jwt_family_name jwt \<noteq> None then
           concat_null (concat_null (jwt_given_name jwt) (Some '' '')) (jwt_family_name jwt)
         else if jwt_given_name jwt \<noteq> None then jwt_given_name jwt
         else map_option split_part_at (jwt_email jwt))
      else jwt_name jwt)"

definition clerk_username_seed :: "db_env \<Rightarrow> jwt_claims \<Rightarrow> string option" where
  \<comment> \<open>\<^verbatim>\<open>lower(replace(COALESCE(_full_name, split_part(_email, '@', 1)), ' ', '_'))\<close>\<close>
  "clerk_username_seed env jwt =
     map_option (lower env)
       (map_option (replace_char (CHR '' '') ''_'')
          (coalesce (clerk_full_name jwt) (map_option split_part_at (jwt_email jwt))))"

definition username_exists :: "users_table \<Rightarrow> string option \<Rightarrow> bool" where
  \<comment> \<open>\<^verbatim>\<open>EXISTS (SELECT 1 FROM public.users WHERE username = _username)\<close>: no row equals NULL\<close>
  "username_exists tbl u = (case u of None \<Rightarrow> False | Some s \<Rightarrow> s \<in> set (map username tbl))"

function ensure_unique_username ::
  "(nat \<Rightarrow> nat) \<Rightarrow> users_table \<Rightarrow> string option \<Rightarrow> nat \<Rightarrow> string option \<times> nat" where
  \<comment> \<open>\<^verbatim>\<open>WHILE EXISTS (...) LOOP _username := _username || '_' || floor(random() * 1000)::text;
     END LOOP\<close>; the number is the count of random values drawn so far\<close>
  "ensure_unique_username rnd tbl u k =
     (if username_exists tbl u then
        ensure_unique_username rnd tbl
          (concat_null (concat_null u (Some ''_'')) (Some (nat_to_text (rnd k)))) (Suc k)
      else (u, k))"
  by pat_completeness auto
termination
proof (relation "measure (\<lambda>(rnd, tbl, u, k).
          Suc (sum_list (map (\<lambda>r. length (username r)) tbl)) - (case u of None \<Rightarrow> 0 | Some s \<Rightarrow> length s))",
       goal_cases)
  case 1
  show ?case by simp
next
  case (2 rnd tbl u k)
  then obtain s where u: "u = Some s" and mem: "s \<in> set (map username tbl)"
    by (auto simp: username_exists_def split: option.splits)
  from mem have "length s \<in> set (map (\<lambda>r. length (username r)) tbl)"
    by auto
  then have "length s \<le> sum_list (map (\<lambda>r. length (username r)) tbl)"
    by (intro member_le_sum_list) auto
  then show ?case
    by (simp add: u concat_null_def)
qed

declare ensure_unique_username.simps [simp del]

definition get_or_create_user_profile ::
  "db_env \<Rightarrow> jwt_claims \<Rightarrow> users_table \<Rightarrow> string \<Rightarrow> sql_error + (users_row \<times> users_table)" where
  \<comment> \<open>returns the profile and the table after the call, or the error raised\<close>
  "get_or_create_user_profile env jwt tbl user_auth_id =
     (case find (\<lambda>r. auth_user_id r = user_auth_id) tbl of
        Some user_profile \<Rightarrow> Inr (user_profile, tbl)
      | None \<Rightarrow>
          (let full = clerk_full_name jwt;
               uname = fst (ensure_unique_username (random_draw env) tbl (clerk_username_seed env jwt) 0)
           in insert_users tbl (gen_random_uuid env 0) (now env)
                (Some user_auth_id)
                uname
                (coalesce (jwt_email jwt) (concat_null (Some user_auth_id) (Some ''@clerk.local'')))
                full))"

section \<open>\<^verbatim>\<open>handle_new_user()\<close>, the trigger on \<^verbatim>\<open>auth.users\<close>\<close>

text \<open>
  \<open>NEW\<close> is the row of \<^verbatim>\<open>auth.users\<close> that was just inserted: its \<^verbatim>\<open>id\<close> (a uuid, read as
  text by \<^verbatim>\<open>NEW.id::text\<close>) becomes the profile's \<^verbatim>\<open>auth_user_id\<close>. The keys the trigger
  reads from \<^verbatim>\<open>raw_user_meta_data\<close> are the fields of \<open>user_meta_data\<close>.
\<close>

record user_meta_data =
  meta_username :: "string option"
  meta_full_name :: "string option"
  meta_first_name :: "string option"
  meta_last_name :: "string option"

record auth_users_row =
  new_id :: string
  new_email :: "string option"
  raw_user_meta_data :: "user_meta_data option"

definition max_attempts :: nat where
  "max_attempts = 10"

definition meta_value :: "auth_users_row \<Rightarrow> (user_meta_data \<Rightarrow> string option) \<Rightarrow> string option" where
  \<comment> \<open>\<^verbatim>\<open>NULLIF(trim(NEW.raw_user_meta_data->>'key'), '')\<close> under
     \<^verbatim>\<open>IF NEW.raw_user_meta_data IS NOT NULL\<close>; the variable stays NULL otherwise\<close>
  "meta_value new key =
     (case raw_user_meta_data new of
        None \<Rightarrow> None
      | Some m \<Rightarrow> nullif_empty (map_option trim (key m)))"

definition email_prefix :: "auth_users_row \<Rightarrow> string option" where
  \<comment> \<open>\<^verbatim>\<open>_email_prefix := split_part(NEW.email, '@', 1)\<close>\<close>
  "email_prefix new = map_option split_part_at (new_email new)"

definition initial_username :: "auth_users_row \<Rightarrow> string option" where
  \<comment> \<open>\<^verbatim>\<open>IF _username IS NULL THEN _username := _email_prefix; END IF\<close>\<close>
  "initial_username new =
     (if meta_value new meta_username = None then email_prefix new
      else meta_value new meta_username)"

definition unique_suffix :: "auth_users_row \<Rightarrow> nat \<Rightarrow> string" where
  "unique_suffix new attempt_count =
     (if attempt_count = 0 then []
      else ''-'' @ take 8 (new_id new) @ ''-'' @ nat_to_text attempt_count)"

definition construct_full_name ::
  "string option \<Rightarrow> string option \<Rightarrow> string option \<Rightarrow> string option \<Rightarrow> string option" where
  \<comment> \<open>the block \<^verbatim>\<open>IF _full_name IS NULL THEN ... END IF\<close> of the loop body\<close>
  "construct_full_name fname first_name last_name email_pre =
     (if fname = None then
        (if first_name \<noteq> None \<and> last_name \<noteq> None then
           concat_null (concat_null first_name (Some '' '')) last_name
         else if first_name \<noteq> None then first_name
         else if last_name \<noteq> None then last_name
         else email_pre)
      else fname)"

definition fallback_username :: "auth_users_row \<Rightarrow> string option" where
  \<comment> \<open>\<^verbatim>\<open>_username := _email_prefix || '-' || replace(NEW.id::text, '-', '')\<close>\<close>
  "fallback_username new =
     concat_null (concat_null (email_prefix new) (Some ''-''))
       (Some (replace_char (CHR ''-'') [] (new_id new)))"

definition insert_profile ::
  "db_env \<Rightarrow> users_table \<Rightarrow> auth_users_row \<Rightarrow> nat \<Rightarrow> string option \<Rightarrow> string option \<Rightarrow>
   sql_error + (users_row \<times> users_table)" where
  \<comment> \<open>\<^verbatim>\<open>INSERT INTO public.users (auth_user_id, username, email, full_name, created_at,
     updated_at) VALUES (NEW.id, ..., NEW.email, _full_name, now(), now())\<close>, the \<open>n\<close>-th
     INSERT statement of the call\<close>
  "insert_profile env tbl new n uname fname =
     insert_users tbl (gen_random_uuid env n) (now env) (Some (new_id new)) uname (new_email new) fname"

text \<open>
  The loop \<^verbatim>\<open>WHILE _attempt_count < _max_attempts LOOP BEGIN ... EXCEPTION ... END; END LOOP\<close>.
  The result is the list of usernames offered to INSERT, in order, and the table after
  the trigger or the error it raised. An error inside the block undoes the block's
  changes to the table and keeps its assignments to the variables; an error raised by
  the handler's own INSERT is not caught by the block.
\<close>

function insert_with_retry ::
  "db_env \<Rightarrow> users_table \<Rightarrow> auth_users_row \<Rightarrow> string option \<Rightarrow> string option \<Rightarrow> string option \<Rightarrow>
   string option \<Rightarrow> nat \<Rightarrow> string option list \<times> (sql_error + users_table)" where
  "insert_with_retry env tbl new uname fname first_name last_name attempt_count =
     (if attempt_count < max_attempts then
        (let fname' = construct_full_name fname first_name last_name (email_prefix new);
             candidate = concat_null uname (Some (unique_suffix new attempt_count))
         in case insert_profile env tbl new attempt_count candidate fname' of
              Inr (r, tbl') \<Rightarrow> ([candidate], Inr tbl')
            | Inl (Unique_violation c) \<Rightarrow>
                if Suc attempt_count \<ge> max_attempts then
                  ([candidate, fallback_username new],
                   map_sum (\<lambda>e. e) snd
                     (insert_profile env tbl new (Suc attempt_count) (fallback_username new) fname'))
                else
                  (case insert_with_retry env tbl new uname fname' first_name last_name
                          (Suc attempt_count) of
                     (tr, res) \<Rightarrow> (candidate # tr, res))
            | Inl e \<Rightarrow> ([candidate], Inl (Raise_exception (new_email new) e)))
      else ([], Inr tbl))"
  by pat_completeness auto
termination
  by (relation "measure (\<lambda>(env, tbl, new, uname, fname, first_name, last_name, attempt_count).
        max_attempts - attempt_count)") auto

declare insert_with_retry.simps [simp del]

definition handle_new_user ::
  "db_env \<Rightarrow> users_table \<Rightarrow> auth_users_row \<Rightarrow> string option list \<times> (sql_error + users_table)" where
  "handle_new_user env tbl new =
     insert_with_retry env tbl new (initial_username new) (meta_value new meta_full_name)
       (meta_value new meta_first_name) (meta_value new meta_last_name) 0"

section \<open>\<^verbatim>\<open>getUserProfile\<close>, the client wrapper of the RPC\<close>

text \<open>
  \<^verbatim>\<open>
  export const getUserProfile = async (clerkUserId: string): Promise<User | null> => {
    try {
      const supabase = createClerkSupabaseClient();
      const { data, error } = await supabase
        .rpc('get_or_create_user_profile', { user_auth_id: clerkUserId });
      if (error) { console.error(...); return null; }
      return data;
    } catch (error) { console.error(...); return null; }
  };
  \<close>
  A statement either completes normally with a value or throws; an awaited promise that
  rejects throws. \<^verbatim>\<open>null\<close> is \<^term>\<open>None\<close>. The collaborators (the client factory and the
  RPC call) are parameters: each may return or throw anything. Logging to the console is
  taken not to throw.
\<close>

datatype ('a, 'x) completion = Normal 'a | Throw 'x

definition bind_completion ::
  "('a, 'x) completion \<Rightarrow> ('a \<Rightarrow> ('b, 'x) completion) \<Rightarrow> ('b, 'x) completion" where
  "bind_completion m f = (case m of Normal a \<Rightarrow> f a | Throw x \<Rightarrow> Throw x)"

definition try_catch ::
  "('a, 'x) completion \<Rightarrow> ('x \<Rightarrow> ('a, 'y) completion) \<Rightarrow> ('a, 'y) completion" where
  "try_catch body handler = (case body of Normal a \<Rightarrow> Normal a | Throw x \<Rightarrow> handler x)"

record ('u, 'e) rpc_response =
  data :: "'u option"
  error :: "'e option"

definition getUserProfile ::
  "(unit \<Rightarrow> ('c, 'x) completion) \<Rightarrow> ('c \<Rightarrow> string \<Rightarrow> (('u, 'e) rpc_response, 'x) completion) \<Rightarrow>
   string \<Rightarrow> ('u option, 'y) completion" where
  "getUserProfile createClerkSupabaseClient rpc clerkUserId =
     try_catch
       (bind_completion (createClerkSupabaseClient ()) (\<lambda>supabase.
        bind_completion (rpc supabase clerkUserId) (\<lambda>response.
          if error response \<noteq> None then Normal None
          else Normal (data response))))
       (\<lambda>caught. Normal None)"

section \<open>Derived notions and example data\<close>

definition retry_candidate :: "auth_users_row \<Rightarrow> string option \<Rightarrow> nat \<Rightarrow> string option" where
  \<comment> \<open>\<^verbatim>\<open>_username || _unique_suffix\<close> at a given value of \<^verbatim>\<open>_attempt_count\<close>\<close>
  "retry_candidate new uname k = concat_null uname (Some (unique_suffix new k))"

definition derived_full_name :: "auth_users_row \<Rightarrow> string option" where
  \<comment> \<open>\<^verbatim>\<open>_full_name\<close> after the first pass through the loop body\<close>
  "derived_full_name new =
     construct_full_name (meta_value new meta_full_name) (meta_value new meta_first_name)
       (meta_value new meta_last_name) (email_prefix new)"

definition random_suffixes :: "(nat \<Rightarrow> nat) \<Rightarrow> nat \<Rightarrow> nat \<Rightarrow> string" where
  \<comment> \<open>what the draws \<open>j\<close>, \<dots>, \<open>k - 1\<close> of the Clerk function's loop append\<close>
  "random_suffixes rnd j k = concat (map (\<lambda>i. ''_'' @ nat_to_text (rnd i)) [j..<k])"

definition example_env :: db_env where
  "example_env =
     \<lparr>gen_random_uuid = (\<lambda>n. ''0f1e2d3c-4b5a-6978-8796-a5b4c3d2e1f'' @ nat_to_text n),
      now = 1751187600, random_draw = (\<lambda>n. 7), lower = lower_c_locale\<rparr>"

definition no_claims :: jwt_claims where
  "no_claims =
     \<lparr>jwt_email = None, jwt_given_name = None, jwt_family_name = None, jwt_name = None\<rparr>"

definition name_only_claims :: jwt_claims where
  "name_only_claims =
     \<lparr>jwt_email = None, jwt_given_name = None, jwt_family_name = None,
      jwt_name = Some ''Jane Doe''\<rparr>"

definition jane_row :: users_row where
  "jane_row =
     \<lparr>row_id = ''11111111-2222-3333-4444-555555555555'', auth_user_id = ''user_2abc'',
      username = ''jane_doe'', email = ''jane@x.com'', full_name = Some ''Jane Doe'',
      created_at = 1751100000, updated_at = 1751100000\<rparr>"

definition created_row :: users_row where
  \<comment> \<open>the row the Clerk function creates for \<open>name_only_claims\<close> and subject \<^verbatim>\<open>sub_123\<close>\<close>
  "created_row =
     \<lparr>row_id = ''0f1e2d3c-4b5a-6978-8796-a5b4c3d2e1f0'', auth_user_id = ''sub_123'',
      username = ''jane_doe'', email = ''sub_123@clerk.local'', full_name = Some ''Jane Doe'',
      created_at = 1751187600, updated_at = 1751187600\<rparr>"

definition colliding_signup :: auth_users_row where
  \<comment> \<open>a sign-up that asks for the username \<^verbatim>\<open>jane_doe\<close>, which is taken\<close>
  "colliding_signup =
     \<lparr>new_id = ''9a8b7c6d-0000-4000-8000-123456789abc'', new_email = Some ''jane@x.com'',
      raw_user_meta_data = Some \<lparr>meta_username = Some '' jane_doe '', meta_full_name = None,
        meta_first_name = Some ''Jane'', meta_last_name = None\<rparr>\<rparr>"

definition same_email_signup :: auth_users_row where
  \<comment> \<open>a sign-up with the email of \<open>jane_row\<close> and a username that is free\<close>
  "same_email_signup =
     \<lparr>new_id = ''9a8b7c6d-0000-4000-8000-123456789abc'', new_email = Some ''jane@x.com'',
      raw_user_meta_data = None\<rparr>"

definition jane_claims :: jwt_claims where
  "jane_claims =
     \<lparr>jwt_email = Some ''jane@x.com'', jwt_given_name = None, jwt_family_name = None,
      jwt_name = Some ''Jane Doe''\<rparr>"

definition chain_row :: "nat \<Rightarrow> users_row" where
  "chain_row n =
     \<lparr>row_id = ''row-'' @ nat_to_text n, auth_user_id = ''user_'' @ nat_to_text n,
      username = ''a'' @ concat (replicate n ''_7''), email = nat_to_text n @ ''@x.com'',
      full_name = None, created_at = 0, updated_at = 0\<rparr>"

definition collision_chain :: users_table where
  \<comment> \<open>eleven profiles named \<^verbatim>\<open>a\<close>, \<^verbatim>\<open>a_7\<close>, \<^verbatim>\<open>a_7_7\<close>, \<dots>\<close>
  "collision_chain = map chain_row [0..<11]"

definition taken_row :: "nat \<Rightarrow> users_row" where
  "taken_row n =
     \<lparr>row_id = ''row-'' @ nat_to_text n, auth_user_id = ''user_'' @ nat_to_text n,
      username = (if n = 0 then ''jane_doe'' else ''jane_doe-9a8b7c6d-'' @ nat_to_text n),
      email = ''user'' @ nat_to_text n @ ''@x.com'', full_name = None,
      created_at = 0, updated_at = 0\<rparr>"

definition taken_table :: users_table where
  \<comment> \<open>ten profiles holding \<^verbatim>\<open>jane_doe\<close> and its nine suffixed forms for \<open>colliding_signup\<close>\<close>
  "taken_table = map taken_row [0..<10]"

definition fallback_row :: users_row where
  \<comment> \<open>the row the trigger's fallback INSERT creates for \<open>colliding_signup\<close>\<close>
  "fallback_row =
     \<lparr>row_id = ''0f1e2d3c-4b5a-6978-8796-a5b4c3d2e1f10'',
      auth_user_id = ''9a8b7c6d-0000-4000-8000-123456789abc'',
      username = ''jane-9a8b7c6d000040008000123456789abc'', email = ''jane@x.com'',
      full_name = Some ''Jane'', created_at = 1751187600, updated_at = 1751187600\<rparr>"

definition suffixed_row :: users_row where
  \<comment> \<open>the row the Clerk function creates for \<open>name_only_claims\<close> when \<^verbatim>\<open>jane_doe\<close> is taken\<close>
  "suffixed_row =
     \<lparr>row_id = ''0f1e2d3c-4b5a-6978-8796-a5b4c3d2e1f0'', auth_user_id = ''sub_123'',
      username = ''jane_doe_7'', email = ''sub_123@clerk.local'', full_name = Some ''Jane Doe'',
      created_at = 1751187600, updated_at = 1751187600\<rparr>"

definition jane_created :: users_row where
  \<comment> \<open>the row the Clerk function creates for \<open>jane_claims\<close>\<close>
  "jane_created =
     \<lparr>row_id = ''0f1e2d3c-4b5a-6978-8796-a5b4c3d2e1f0'', auth_user_id = ''sub_123'',
      username = ''jane_doe'', email = ''jane@x.com'', full_name = Some ''Jane Doe'',
      created_at = 1751187600, updated_at = 1751187600\<rparr>"

text \<open>
  The sentences of the specification about usernames, word for word, to compare the code
  with: the first retry appends \<open>a short suffix derived from the new record's own generated
  id (first 8 characters) plus the attempt number, separated by hyphens\<close>; the final insert
  uses \<open>the email local-part plus the full external-subject id with separators stripped\<close>;
  the seed is \<open>claims.username if present, else the local-part of email\<close>.
\<close>

definition spec_display_name ::
  "string option \<Rightarrow> string option \<Rightarrow> string option \<Rightarrow> string \<Rightarrow> string" where
  \<comment> \<open>the precedence of the specification: \<open>fullName\<close>, else \<open>firstName + " " + lastName\<close>
     (both required), else \<open>firstName\<close> alone, else \<open>lastName\<close> alone, else the local part
     of the email\<close>
  "spec_display_name full_nm first_nm last_nm resolved_email =
     (case full_nm of
        Some f \<Rightarrow> f
      | None \<Rightarrow>
          (case first_nm of
             Some a \<Rightarrow> (case last_nm of Some b \<Rightarrow> a @ '' '' @ b | None \<Rightarrow> a)
           | None \<Rightarrow> (case last_nm of Some b \<Rightarrow> b | None \<Rightarrow> split_part_at resolved_email)))"

definition spec_retry_username :: "string \<Rightarrow> string \<Rightarrow> nat \<Rightarrow> string" where
  "spec_retry_username seed record_id attempt =
     seed @ ''-'' @ take 8 record_id @ ''-'' @ nat_to_text attempt"

definition spec_fallback_username :: "string \<Rightarrow> string \<Rightarrow> string" where
  "spec_fallback_username local_part subject_id =
     local_part @ filter (\<lambda>c. c \<noteq> CHR ''-'') subject_id"

definition spec_username_seed :: "string option \<Rightarrow> string \<Rightarrow> string" where
  "spec_username_seed claims_username resolved_email =
     (case claims_username of Some u \<Rightarrow> u | None \<Rightarrow> split_part_at resolved_email)"

section \<open>Auxiliary lemmas\<close>

lemmas sql_eval =
  split_part_at_def trim_def nullif_empty_def concat_null_def coalesce_def replace_char_def
  lower_char_def lower_c_locale_def digit_char_def char_of_def bit_0 nat_to_text.simps

lemmas clerk_eval =
  get_or_create_user_profile_def clerk_full_name_def clerk_username_seed_def
  ensure_unique_username.simps username_exists_def insert_users_def Let_def

lemma find_append_fresh:
  "find P xs = None \<Longrightarrow> P x \<Longrightarrow> find P (xs @ [x]) = Some x"
  by (induction xs) (auto split: if_splits)

lemma find_distinct_key:
  "distinct (map f xs) \<Longrightarrow> r \<in> set xs \<Longrightarrow> find (\<lambda>x. f x = f r) xs = Some r"
  by (induction xs) (auto simp: rev_image_eqI)

lemma find_None_key:
  "k \<notin> set (map f xs) \<Longrightarrow> find (\<lambda>x. f x = k) xs = None"
  by (induction xs) auto

lemma insert_users_Inr:
  assumes "insert_users tbl i ts a u e f = Inr (r, tbl')"
  shows "tbl' = tbl @ [r] \<and> Some (auth_user_id r) = a \<and> Some (username r) = u
         \<and> Some (email r) = e \<and> full_name r = f \<and> row_id r = i"
  using assms
  by (auto simp: insert_users_def Let_def split: option.splits if_splits)

lemma get_or_create_created:
  assumes "user_auth_id \<notin> set (map auth_user_id tbl)"
    and "get_or_create_user_profile env jwt tbl user_auth_id = Inr (p, tbl')"
  shows "tbl' = tbl @ [p] \<and> auth_user_id p = user_auth_id
    \<and> full_name p = clerk_full_name jwt
    \<and> Some (username p) = fst (ensure_unique_username (random_draw env) tbl (clerk_username_seed env jwt) 0)
    \<and> Some (email p) = coalesce (jwt_email jwt) (Some (user_auth_id @ ''@clerk.local''))
    \<and> row_id p = gen_random_uuid env 0"
proof -
  from assms(1) have "find (\<lambda>r. auth_user_id r = user_auth_id) tbl = None"
    by (rule find_None_key)
  with assms(2) have
    ins: "insert_users tbl (gen_random_uuid env 0) (now env) (Some user_auth_id)
            (fst (ensure_unique_username (random_draw env) tbl (clerk_username_seed env jwt) 0))
            (coalesce (jwt_email jwt) (Some (user_auth_id @ ''@clerk.local'')))
            (clerk_full_name jwt) = Inr (p, tbl')"
    by (simp add: get_or_create_user_profile_def Let_def concat_null_def)
  from insert_users_Inr [OF ins] show ?thesis
    by simp
qed

lemma name_only_creates_row:
  "get_or_create_user_profile example_env name_only_claims [] ''sub_123''
     = Inr (created_row, [created_row])"
  by (simp add: clerk_eval sql_eval example_env_def name_only_claims_def created_row_def)

lemma example_env_fields:
  "gen_random_uuid example_env n = ''0f1e2d3c-4b5a-6978-8796-a5b4c3d2e1f'' @ nat_to_text n"
  "now example_env = 1751187600"
  "random_draw example_env n = 7"
  "lower example_env = lower_c_locale"
  by (simp_all add: example_env_def)

lemma replace_char_empty: "replace_char c [] s = filter (\<lambda>x. x \<noteq> c) s"
  by (induction s) (simp_all add: replace_char_def)

lemma nat_to_text_1: "nat_to_text (Suc 0) = ''1''"
  by (simp add: sql_eval)

subsection \<open>The trigger's loop\<close>

lemma construct_full_name_idem:
  "construct_full_name (construct_full_name f a b p) a b p = construct_full_name f a b p"
  by (auto simp: construct_full_name_def concat_null_def split: option.splits)

lemma construct_full_name_last_alone:
  "construct_full_name None None (Some b) p = Some b"
  by (simp add: construct_full_name_def)

lemma trigger_display_name_precedence:
  "new_email new = Some e \<Longrightarrow>
   derived_full_name new
     = Some (spec_display_name (meta_value new meta_full_name) (meta_value new meta_first_name)
               (meta_value new meta_last_name) e)"
  by (simp add: derived_full_name_def construct_full_name_def spec_display_name_def
      email_prefix_def concat_null_def split: option.splits)

lemma retry_candidate_0: "retry_candidate new u 0 = u"
  by (simp add: retry_candidate_def unique_suffix_def concat_null_def split: option.splits)

lemma retry_candidate_1:
  "retry_candidate new u 1 = concat_null u (Some (''-'' @ take 8 (new_id new) @ ''-1''))"
  by (simp add: retry_candidate_def unique_suffix_def nat_to_text_1)

lemma insert_with_retry_trace:
  "k < max_attempts \<Longrightarrow>
   \<exists>n. k < n \<and> n \<le> max_attempts \<and>
     (fst (insert_with_retry env tbl new u f a b k) = map (retry_candidate new u) [k..<n]
      \<or> (n = max_attempts \<and>
          fst (insert_with_retry env tbl new u f a b k) =
            map (retry_candidate new u) [k..<max_attempts] @ [fallback_username new]))"
proof (induction env tbl new u f a b k rule: insert_with_retry.induct)
  case (1 env tbl new u f a b k)
  let ?f = "construct_full_name f a b (email_prefix new)"
  let ?c = "retry_candidate new u k"
  let ?loop = "insert_with_retry env tbl new u f a b k"
  note unfold = insert_with_retry.simps [of env tbl new u f a b k]
  show ?case
  proof (cases "insert_profile env tbl new k ?c ?f")
    case (Inr rt)
    with "1.prems" have "fst ?loop = [?c]"
      by (simp add: unfold retry_candidate_def Let_def split: prod.splits)
    then have "fst ?loop = map (retry_candidate new u) [k..<Suc k]"
      by simp
    with "1.prems" show ?thesis
      by (intro exI [of _ "Suc k"]) simp
  next
    case (Inl e)
    show ?thesis
    proof (cases e)
      case (Unique_violation c)
      show ?thesis
      proof (cases "max_attempts \<le> Suc k")
        case True
        with "1.prems" have n: "max_attempts = Suc k"
          by simp
        from Inl Unique_violation True "1.prems"
        have "fst ?loop = [?c, fallback_username new]"
          by (simp add: unfold retry_candidate_def Let_def)
        then have "fst ?loop = map (retry_candidate new u) [k..<max_attempts] @ [fallback_username new]"
          by (simp add: n)
        with "1.prems" show ?thesis
          by (intro exI [of _ max_attempts]) simp
      next
        case False
        let ?rest = "insert_with_retry env tbl new u ?f a b (Suc k)"
        from False have lt: "Suc k < max_attempts"
          by simp
        from Inl Unique_violation False "1.prems"
        have step: "fst ?loop = ?c # fst ?rest"
          by (simp add: unfold retry_candidate_def Let_def split: prod.splits)
        from "1.IH" [OF "1.prems" refl refl _ Unique_violation False lt] Inl
        obtain n where n: "Suc k < n" "n \<le> max_attempts"
          and shape: "fst ?rest = map (retry_candidate new u) [Suc k..<n]
            \<or> (n = max_attempts \<and>
                fst ?rest = map (retry_candidate new u) [Suc k..<max_attempts] @ [fallback_username new])"
          by (auto simp: retry_candidate_def)
        from shape step n "1.prems" show ?thesis
          by (intro exI [of _ n]) (auto simp: upt_conv_Cons)
      qed
    next
      case (Not_null_violation c)
      with Inl "1.prems" have "fst ?loop = [?c]"
        by (simp add: unfold retry_candidate_def Let_def)
      then have "fst ?loop = map (retry_candidate new u) [k..<Suc k]"
        by simp
      with "1.prems" show ?thesis
        by (intro exI [of _ "Suc k"]) simp
    next
      case (Raise_exception m c)
      with Inl "1.prems" have "fst ?loop = [?c]"
        by (simp add: unfold retry_candidate_def Let_def)
      then have "fst ?loop = map (retry_candidate new u) [k..<Suc k]"
        by simp
      with "1.prems" show ?thesis
        by (intro exI [of _ "Suc k"]) simp
    qed
  qed
qed

lemma insert_with_retry_exhausted:
  assumes "k < max_attempts"
    and "\<forall>i. k \<le> i \<and> i < max_attempts \<longrightarrow>
           (\<exists>c. insert_profile env tbl new i (retry_candidate new u i)
                  (construct_full_name f a b (email_prefix new)) = Inl (Unique_violation c))"
  shows "insert_with_retry env tbl new u f a b k =
           (map (retry_candidate new u) [k..<max_attempts] @ [fallback_username new],
            map_sum (\<lambda>e. e) snd
              (insert_profile env tbl new max_attempts (fallback_username new)
                 (construct_full_name f a b (email_prefix new))))"
  using assms
proof (induction env tbl new u f a b k rule: insert_with_retry.induct)
  case (1 env tbl new u f a b k)
  let ?f = "construct_full_name f a b (email_prefix new)"
  let ?c = "retry_candidate new u k"
  note unfold = insert_with_retry.simps [of env tbl new u f a b k]
  from "1.prems" obtain c where here: "insert_profile env tbl new k ?c ?f = Inl (Unique_violation c)"
    by auto
  show ?case
  proof (cases "max_attempts \<le> Suc k")
    case True
    with "1.prems"(1) have n: "max_attempts = Suc k"
      by simp
    from here True "1.prems"(1) show ?thesis
      by (simp add: unfold retry_candidate_def [symmetric] Let_def n)
  next
    case False
    then have lt: "Suc k < max_attempts"
      by simp
    have later: "\<forall>i. Suc k \<le> i \<and> i < max_attempts \<longrightarrow>
           (\<exists>c. insert_profile env tbl new i (retry_candidate new u i)
                  (construct_full_name ?f a b (email_prefix new)) = Inl (Unique_violation c))"
      using "1.prems"(2) by (simp add: construct_full_name_idem)
    from "1.IH" [OF "1.prems"(1) refl refl _ refl False lt later] here
    have rest: "insert_with_retry env tbl new u ?f a b (Suc k) =
           (map (retry_candidate new u) [Suc k..<max_attempts] @ [fallback_username new],
            map_sum (\<lambda>e. e) snd
              (insert_profile env tbl new max_attempts (fallback_username new) ?f))"
      by (simp add: retry_candidate_def construct_full_name_idem)
    from here False "1.prems"(1) rest show ?thesis
      by (simp add: unfold retry_candidate_def [symmetric] Let_def upt_conv_Cons)
  qed
qed

lemma insert_with_retry_first_retry:
  assumes "insert_profile env tbl new 0 u (construct_full_name f a b (email_prefix new))
             = Inl (Unique_violation c)"
  shows "\<exists>rest. fst (insert_with_retry env tbl new u f a b 0)
            = u # retry_candidate new u 1 # rest"
proof -
  let ?f = "construct_full_name f a b (email_prefix new)"
  have one: "Suc 0 < max_attempts"
    by (simp add: max_attempts_def)
  from insert_with_retry_trace [OF one, of env tbl new u ?f a b]
  obtain n where n: "Suc 0 < n" and
    shape: "fst (insert_with_retry env tbl new u ?f a b (Suc 0)) = map (retry_candidate new u) [Suc 0..<n]
      \<or> fst (insert_with_retry env tbl new u ?f a b (Suc 0)) =
            map (retry_candidate new u) [Suc 0..<max_attempts] @ [fallback_username new]"
    by auto
  from shape n one obtain rest where
    rest: "fst (insert_with_retry env tbl new u ?f a b (Suc 0)) = retry_candidate new u 1 # rest"
    by (auto simp: upt_conv_Cons)
  from assms one have "fst (insert_with_retry env tbl new u f a b 0)
      = u # fst (insert_with_retry env tbl new u ?f a b (Suc 0))"
    by (simp add: insert_with_retry.simps [of env tbl new u f a b 0]
        retry_candidate_0 [unfolded retry_candidate_def] Let_def max_attempts_def split: prod.splits)
  with rest show ?thesis
    by simp
qed

subsection \<open>The Clerk function's loop\<close>

lemma ensure_unique_username_None: "ensure_unique_username rnd tbl None j = (None, j)"
  by (simp add: ensure_unique_username.simps username_exists_def)

lemma ensure_unique_username_Some:
  "ensure_unique_username rnd tbl (Some s) j = (u, k) \<Longrightarrow>
   j \<le> k \<and> u = Some (s @ random_suffixes rnd j k) \<and> \<not> username_exists tbl u"
proof (induction rnd tbl "Some s" j arbitrary: s rule: ensure_unique_username.induct)
  case (1 rnd tbl j)
  note unfold = ensure_unique_username.simps [of rnd tbl "Some s" j]
  show ?case
  proof (cases "username_exists tbl (Some s)")
    case True
    let ?s = "s @ ''_'' @ nat_to_text (rnd j)"
    from True "1.prems" have "ensure_unique_username rnd tbl (Some ?s) (Suc j) = (u, k)"
      by (simp add: unfold concat_null_def)
    with "1.hyps" [OF True, of ?s]
    have ih: "Suc j \<le> k \<and> u = Some (?s @ random_suffixes rnd (Suc j) k) \<and> \<not> username_exists tbl u"
      by (auto simp: concat_null_def)
    then have "random_suffixes rnd j k = ''_'' @ nat_to_text (rnd j) @ random_suffixes rnd (Suc j) k"
      by (simp add: random_suffixes_def upt_conv_Cons)
    with ih show ?thesis
      by auto
  next
    case False
    with "1.prems" show ?thesis
      by (simp add: unfold random_suffixes_def)
  qed
qed

lemma length_filter_mono:
  "(\<And>y. Q y \<Longrightarrow> P y) \<Longrightarrow> length (filter Q xs) \<le> length (filter P xs)"
  by (induction xs) auto

lemma length_filter_less:
  "x \<in> set xs \<Longrightarrow> P x \<Longrightarrow> \<not> Q x \<Longrightarrow> (\<And>y. Q y \<Longrightarrow> P y) \<Longrightarrow>
   length (filter Q xs) < length (filter P xs)"
proof (induction xs)
  case Nil
  then show ?case by simp
next
  case (Cons a xs)
  have mono: "length (filter Q xs) \<le> length (filter P xs)"
    using Cons.prems(4) by (rule length_filter_mono)
  show ?case
  proof (cases "x = a")
    case True
    with Cons.prems mono show ?thesis by simp
  next
    case False
    with Cons.prems have "x \<in> set xs" by simp
    from Cons.IH [OF this Cons.prems(2,3,4)] Cons.prems(4) [of a] show ?thesis
      by auto
  qed
qed

lemma ensure_unique_username_draws:
  "snd (ensure_unique_username rnd tbl (Some s) j) - j
     \<le> length (filter (\<lambda>r. length s \<le> length (username r)) tbl)"
proof (induction rnd tbl "Some s" j arbitrary: s rule: ensure_unique_username.induct)
  case (1 rnd tbl j)
  note unfold = ensure_unique_username.simps [of rnd tbl "Some s" j]
  show ?case
  proof (cases "username_exists tbl (Some s)")
    case True
    let ?s = "s @ ''_'' @ nat_to_text (rnd j)"
    from True obtain r where r: "r \<in> set tbl" "username r = s"
      by (auto simp: username_exists_def)
    have "length (filter (\<lambda>r. length ?s \<le> length (username r)) tbl)
            < length (filter (\<lambda>r. length s \<le> length (username r)) tbl)"
      using r by (intro length_filter_less [of r]) auto
    moreover from "1.hyps" [OF True, of ?s]
    have "snd (ensure_unique_username rnd tbl (Some ?s) (Suc j)) - Suc j
            \<le> length (filter (\<lambda>r. length ?s \<le> length (username r)) tbl)"
      by (simp add: concat_null_def)
    moreover from True
    have "ensure_unique_username rnd tbl (Some s) j = ensure_unique_username rnd tbl (Some ?s) (Suc j)"
      by (simp add: unfold concat_null_def)
    ultimately show ?thesis
      by simp
  next
    case False
    then show ?thesis
      by (simp add: unfold)
  qed
qed

lemma ensure_unique_username_bounded:
  "snd (ensure_unique_username rnd tbl u 0) \<le> length tbl"
proof (cases u)
  case None
  then show ?thesis by (simp add: ensure_unique_username_None)
next
  case (Some s)
  have "snd (ensure_unique_username rnd tbl (Some s) 0) - 0
          \<le> length (filter (\<lambda>r. length s \<le> length (username r)) tbl)"
    by (rule ensure_unique_username_draws)
  also have "\<dots> \<le> length tbl"
    by (rule length_filter_le)
  finally show ?thesis
    using Some by simp
qed

lemma clerk_username_seed_from_full_name:
  "clerk_username_seed env jwt =
     map_option (\<lambda>n. lower env (replace_char (CHR '' '') ''_'' n)) (clerk_full_name jwt)"
  by (cases "jwt_email jwt")
     (auto simp: clerk_username_seed_def clerk_full_name_def coalesce_def concat_null_def
           split: option.splits)

lemma clerk_no_email_no_given_name_fails:
  assumes "jwt_email jwt = None"
    and "jwt_name jwt = None \<or> jwt_name jwt = Some []"
    and "jwt_given_name jwt = None"
    and "user_auth_id \<notin> set (map auth_user_id tbl)"
  shows "get_or_create_user_profile env jwt tbl user_auth_id = Inl (Not_null_violation Col_username)"
proof -
  from assms(1,2,3) have "clerk_full_name jwt = None" and "clerk_username_seed env jwt = None"
    by (auto simp: clerk_full_name_def clerk_username_seed_def coalesce_def)
  moreover from assms(4) have "find (\<lambda>r. auth_user_id r = user_auth_id) tbl = None"
    by (rule find_None_key)
  ultimately show ?thesis
    by (simp add: get_or_create_user_profile_def ensure_unique_username_None insert_users_def)
qed

lemma created_username_shape:
  assumes "user_auth_id \<notin> set (map auth_user_id tbl)"
    and "get_or_create_user_profile env jwt tbl user_auth_id = Inr (p, tbl')"
  shows "\<exists>seed k. clerk_username_seed env jwt = Some seed
           \<and> username p = seed @ random_suffixes (random_draw env) 0 k
           \<and> snd (ensure_unique_username (random_draw env) tbl (Some seed) 0) = k"
proof -
  from get_or_create_created [OF assms]
  have u: "Some (username p)
             = fst (ensure_unique_username (random_draw env) tbl (clerk_username_seed env jwt) 0)"
    by simp
  then obtain seed where seed: "clerk_username_seed env jwt = Some seed"
    by (cases "clerk_username_seed env jwt") (simp_all add: ensure_unique_username_None)
  obtain v k where loop: "ensure_unique_username (random_draw env) tbl (Some seed) 0 = (v, k)"
    by (cases "ensure_unique_username (random_draw env) tbl (Some seed) 0")
  from ensure_unique_username_Some [OF loop] u seed loop
  have "username p = seed @ random_suffixes (random_draw env) 0 k"
    by simp
  with seed loop show ?thesis
    by simp
qed

lemma random_suffixes_same: "random_suffixes rnd j j = []"
  by (simp add: random_suffixes_def)

lemma random_suffixes_step:
  "j < i \<Longrightarrow> random_suffixes rnd j i = ''_'' @ nat_to_text (rnd j) @ random_suffixes rnd (Suc j) i"
  by (simp add: random_suffixes_def upt_conv_Cons)

lemma ensure_unique_username_taken:
  "ensure_unique_username rnd tbl (Some s) j = (u, k) \<Longrightarrow> j \<le> i \<Longrightarrow> i < k \<Longrightarrow>
   s @ random_suffixes rnd j i \<in> set (map username tbl)"
proof (induction rnd tbl "Some s" j arbitrary: s rule: ensure_unique_username.induct)
  case (1 rnd tbl j)
  note unfold = ensure_unique_username.simps [of rnd tbl "Some s" j]
  show ?case
  proof (cases "username_exists tbl (Some s)")
    case True
    let ?s = "s @ ''_'' @ nat_to_text (rnd j)"
    from True "1.prems"(1) have rec: "ensure_unique_username rnd tbl (Some ?s) (Suc j) = (u, k)"
      by (simp add: unfold concat_null_def)
    show ?thesis
    proof (cases "i = j")
      case True
      with \<open>username_exists tbl (Some s)\<close> show ?thesis
        by (simp add: random_suffixes_same username_exists_def)
    next
      case False
      with "1.prems"(2) have lt: "j < i" and le: "Suc j \<le> i"
        by simp_all
      have "?s @ random_suffixes rnd (Suc j) i \<in> set (map username tbl)"
        using "1.hyps" [OF True, of ?s] rec le "1.prems"(3)
        by (simp add: concat_null_def)
      with lt show ?thesis
        by (simp add: random_suffixes_step)
    qed
  next
    case False
    with "1.prems" show ?thesis
      by (simp add: unfold)
  qed
qed

lemma get_or_create_absent:
  assumes "user_auth_id \<notin> set (map auth_user_id tbl)"
    and "clerk_username_seed env jwt = Some seed"
  shows "\<exists>k. (\<forall>j<k. seed @ random_suffixes (random_draw env) 0 j \<in> set (map username tbl))
            \<and> seed @ random_suffixes (random_draw env) 0 k \<notin> set (map username tbl)
            \<and> get_or_create_user_profile env jwt tbl user_auth_id
                = insert_users tbl (gen_random_uuid env 0) (now env) (Some user_auth_id)
                    (Some (seed @ random_suffixes (random_draw env) 0 k))
                    (coalesce (jwt_email jwt) (Some (user_auth_id @ ''@clerk.local'')))
                    (clerk_full_name jwt)"
proof -
  obtain u k where loop: "ensure_unique_username (random_draw env) tbl (Some seed) 0 = (u, k)"
    by (cases "ensure_unique_username (random_draw env) tbl (Some seed) 0")
  from ensure_unique_username_Some [OF loop]
  have u: "u = Some (seed @ random_suffixes (random_draw env) 0 k)"
    and free: "\<not> username_exists tbl u"
    by auto
  from free u have free': "seed @ random_suffixes (random_draw env) 0 k \<notin> set (map username tbl)"
    by (simp add: username_exists_def)
  have taken: "\<forall>j<k. seed @ random_suffixes (random_draw env) 0 j \<in> set (map username tbl)"
    using ensure_unique_username_taken [OF loop] by simp
  from assms(1) have "find (\<lambda>r. auth_user_id r = user_auth_id) tbl = None"
    by (rule find_None_key)
  with assms(2) loop u
  have "get_or_create_user_profile env jwt tbl user_auth_id
                = insert_users tbl (gen_random_uuid env 0) (now env) (Some user_auth_id)
                    (Some (seed @ random_suffixes (random_draw env) 0 k))
                    (coalesce (jwt_email jwt) (Some (user_auth_id @ ''@clerk.local'')))
                    (clerk_full_name jwt)"
    by (simp add: get_or_create_user_profile_def Let_def concat_null_def)
  with taken free' show ?thesis
    by blast
qed

lemma null_email_placeholder:
  assumes "jwt_email jwt = None"
    and "user_auth_id \<notin> set (map auth_user_id tbl)"
    and "get_or_create_user_profile env jwt tbl user_auth_id = Inr (p, tbl')"
  shows "email p = user_auth_id @ ''@clerk.local'' \<and> prefix user_auth_id (email p)
         \<and> tbl' = tbl @ [p]"
proof -
  from get_or_create_created [OF assms(2,3)] assms(1)
  have "email p = user_auth_id @ ''@clerk.local''" and "tbl' = tbl @ [p]"
    by (simp_all add: coalesce_def)
  then show ?thesis
    by simp
qed

subsection \<open>Evaluations on the example data\<close>

lemma colliding_signup_fields:
  "new_id colliding_signup = ''9a8b7c6d-0000-4000-8000-123456789abc''"
  "new_email colliding_signup = Some ''jane@x.com''"
  "initial_username colliding_signup = Some ''jane_doe''"
  "derived_full_name colliding_signup = Some ''Jane''"
  "email_prefix colliding_signup = Some ''jane''"
  by (simp_all add: colliding_signup_def initial_username_def derived_full_name_def
      construct_full_name_def email_prefix_def meta_value_def sql_eval)

lemma same_email_signup_fields:
  "new_id same_email_signup = ''9a8b7c6d-0000-4000-8000-123456789abc''"
  "new_email same_email_signup = Some ''jane@x.com''"
  "initial_username same_email_signup = Some ''jane''"
  "derived_full_name same_email_signup = Some ''jane''"
  "email_prefix same_email_signup = Some ''jane''"
  by (simp_all add: same_email_signup_def initial_username_def derived_full_name_def
      construct_full_name_def email_prefix_def meta_value_def sql_eval)

lemma below_max_attempts:
  "i < max_attempts \<Longrightarrow>
   i = 0 \<or> i = 1 \<or> i = 2 \<or> i = 3 \<or> i = 4 \<or> i = 5 \<or> i = 6 \<or> i = 7 \<or> i = 8 \<or> i = 9"
  unfolding max_attempts_def by arith

lemma name_only_collides:
  "get_or_create_user_profile example_env name_only_claims [jane_row] ''sub_123''
     = Inr (suffixed_row, [jane_row, suffixed_row])"
  by (simp add: clerk_eval sql_eval example_env_def name_only_claims_def jane_row_def suffixed_row_def)

lemma upt_10: "[0..<10] = [0, 1, 2, 3, 4, 5, 6, 7, 8, 9 :: nat]"
  by (simp add: upt_rec)

lemma taken_first:
  "insert_profile example_env taken_table colliding_signup 0 (initial_username colliding_signup)
     (derived_full_name colliding_signup) = Inl (Unique_violation Col_username)"
  by (simp add: colliding_signup_fields example_env_fields insert_profile_def insert_users_def
      taken_table_def taken_row_def upt_10 sql_eval)

lemma taken_all:
  "\<forall>i<max_attempts. insert_profile example_env taken_table colliding_signup i
     (retry_candidate colliding_signup (initial_username colliding_signup) i)
     (derived_full_name colliding_signup) = Inl (Unique_violation Col_username)"
proof (intro allI impI)
  fix i :: nat
  assume "i < max_attempts"
  from below_max_attempts [OF this]
  show "insert_profile example_env taken_table colliding_signup i
     (retry_candidate colliding_signup (initial_username colliding_signup) i)
     (derived_full_name colliding_signup) = Inl (Unique_violation Col_username)"
    by (elim disjE; clarify;
        simp add: colliding_signup_fields example_env_fields retry_candidate_def unique_suffix_def
          insert_profile_def insert_users_def taken_table_def taken_row_def upt_10 sql_eval)
qed

lemma taken_fallback:
  "insert_profile example_env taken_table colliding_signup max_attempts
     (fallback_username colliding_signup) (derived_full_name colliding_signup)
     = Inr (fallback_row, taken_table @ [fallback_row])"
  by (simp add: colliding_signup_fields example_env_fields fallback_username_def max_attempts_def
      insert_profile_def insert_users_def taken_table_def taken_row_def fallback_row_def upt_10
      sql_eval Let_def)

lemma name_only_seed: "clerk_username_seed example_env name_only_claims = Some ''jane_doe''"
  by (simp add: clerk_username_seed_def clerk_full_name_def name_only_claims_def
      example_env_fields sql_eval)

section \<open>The claims\<close>

text \<open>
  C1. Calling \<^verbatim>\<open>get_or_create_user_profile\<close> twice in sequence for the same subject returns
  the same profile (hence the same id) both times, and the second call takes the read
  path: it returns the table it was given, so it inserts nothing. Stated for every call
  that returns a profile at all: whenever the first call returns profile \<open>p\<close> and leaves
  table \<open>tbl'\<close>, a second call on \<open>tbl'\<close> returns \<open>p\<close> and \<open>tbl'\<close> again, whatever the claims
  and the random values of the second call are.
\<close>

theorem get_or_create_twice_same_profile:
  assumes "get_or_create_user_profile env jwt tbl user_auth_id = Inr (p, tbl')"
  shows "get_or_create_user_profile env' jwt' tbl' user_auth_id = Inr (p, tbl')"
proof (cases "find (\<lambda>r. auth_user_id r = user_auth_id) tbl")
  case (Some r)
  with assms have "p = r" and "tbl' = tbl"
    by (simp_all add: get_or_create_user_profile_def)
  with Some show ?thesis
    by (simp add: get_or_create_user_profile_def)
next
  case None
  with assms obtain u e f where
    ins: "insert_users tbl (gen_random_uuid env 0) (now env) (Some user_auth_id) u e f = Inr (p, tbl')"
    by (simp add: get_or_create_user_profile_def Let_def)
  from insert_users_Inr [OF ins] have "tbl' = tbl @ [p]" and "auth_user_id p = user_auth_id"
    by simp_all
  with None have "find (\<lambda>r. auth_user_id r = user_auth_id) tbl' = Some p"
    by (simp add: find_append_fresh)
  then show ?thesis
    by (simp add: get_or_create_user_profile_def)
qed

theorem get_or_create_twice_same_profile_witness:
  "get_or_create_user_profile example_env name_only_claims [] ''sub_123''
     = Inr (created_row, [created_row])
   \<and> get_or_create_user_profile example_env no_claims [created_row] ''sub_123''
     = Inr (created_row, [created_row])"
proof -
  note first = name_only_creates_row
  from first
    get_or_create_twice_same_profile [OF first, where env' = example_env and jwt' = no_claims]
  show ?thesis
    by (rule conjI)
qed

text \<open>
  C2 (as amended). In the trigger \<^verbatim>\<open>handle_new_user\<close>, when the first INSERT (with the seed as
  username) is refused because the username is taken, the second INSERT offers the seed
  followed by a hyphen, the first 8 characters of \<^verbatim>\<open>NEW.id\<close>, a hyphen and the attempt number
  1; and when all ten INSERTs of the loop are refused because their usernames are taken,
  the usernames offered were the seed and its nine suffixed forms in order, after which
  exactly one more INSERT is made, whose username is the email local part, a hyphen, and
  \<^verbatim>\<open>NEW.id\<close> without its hyphens, and whose outcome is the outcome of the trigger. In the
  Clerk function \<^verbatim>\<open>get_or_create_user_profile\<close>, for a subject without a profile and a seed
  that is not NULL, the candidates are the seed followed by 0, 1, 2, \<dots> groups
  \<^verbatim>\<open>_<number>\<close>; the first one that is not in the table is offered in the one INSERT of the
  call, and the outcome of that INSERT, creation or error, is the outcome of the call:
  nothing is retried and there is no fallback.
\<close>

theorem retry_usernames:
  "(insert_profile env tbl new 0 (initial_username new) (derived_full_name new)
        = Inl (Unique_violation Col_username)
      \<longrightarrow> (\<exists>rest. fst (handle_new_user env tbl new)
             = initial_username new
               # concat_null (initial_username new) (Some (''-'' @ take 8 (new_id new) @ ''-1''))
               # rest))
   \<and> ((\<forall>i<max_attempts. insert_profile env tbl new i
            (retry_candidate new (initial_username new) i) (derived_full_name new)
              = Inl (Unique_violation Col_username))
      \<longrightarrow> handle_new_user env tbl new
          = (map (retry_candidate new (initial_username new)) [0..<max_attempts]
               @ [concat_null (concat_null (email_prefix new) (Some ''-''))
                    (Some (filter (\<lambda>x. x \<noteq> CHR ''-'') (new_id new)))],
             map_sum (\<lambda>e. e) snd
               (insert_profile env tbl new max_attempts (fallback_username new)
                  (derived_full_name new))))
   \<and> (user_auth_id \<notin> set (map auth_user_id tbl) \<and> clerk_username_seed env jwt = Some seed
      \<longrightarrow> (\<exists>k. (\<forall>j<k. seed @ random_suffixes (random_draw env) 0 j \<in> set (map username tbl))
            \<and> seed @ random_suffixes (random_draw env) 0 k \<notin> set (map username tbl)
            \<and> get_or_create_user_profile env jwt tbl user_auth_id
                = insert_users tbl (gen_random_uuid env 0) (now env) (Some user_auth_id)
                    (Some (seed @ random_suffixes (random_draw env) 0 k))
                    (coalesce (jwt_email jwt) (Some (user_auth_id @ ''@clerk.local'')))
                    (clerk_full_name jwt)))"
proof (intro conjI impI)
  assume "insert_profile env tbl new 0 (initial_username new) (derived_full_name new)
        = Inl (Unique_violation Col_username)"
  then show "\<exists>rest. fst (handle_new_user env tbl new)
             = initial_username new
               # concat_null (initial_username new) (Some (''-'' @ take 8 (new_id new) @ ''-1''))
               # rest"
    unfolding handle_new_user_def derived_full_name_def retry_candidate_1 [symmetric]
    by (rule insert_with_retry_first_retry)
next
  assume "\<forall>i<max_attempts. insert_profile env tbl new i
            (retry_candidate new (initial_username new) i) (derived_full_name new)
              = Inl (Unique_violation Col_username)"
  then have all: "\<forall>i. 0 \<le> i \<and> i < max_attempts \<longrightarrow>
           (\<exists>c. insert_profile env tbl new i (retry_candidate new (initial_username new) i)
                  (construct_full_name (meta_value new meta_full_name) (meta_value new meta_first_name)
                     (meta_value new meta_last_name) (email_prefix new)) = Inl (Unique_violation c))"
    by (simp add: derived_full_name_def)
  have pos: "0 < max_attempts"
    by (simp add: max_attempts_def)
  have fb: "fallback_username new = concat_null (concat_null (email_prefix new) (Some ''-''))
                    (Some (filter (\<lambda>x. x \<noteq> CHR ''-'') (new_id new)))"
    by (simp add: fallback_username_def replace_char_empty)
  from insert_with_retry_exhausted [OF pos all]
  show "handle_new_user env tbl new
          = (map (retry_candidate new (initial_username new)) [0..<max_attempts]
               @ [concat_null (concat_null (email_prefix new) (Some ''-''))
                    (Some (filter (\<lambda>x. x \<noteq> CHR ''-'') (new_id new)))],
             map_sum (\<lambda>e. e) snd
               (insert_profile env tbl new max_attempts (fallback_username new)
                  (derived_full_name new)))"
    by (simp add: handle_new_user_def derived_full_name_def fb [symmetric])
next
  assume "user_auth_id \<notin> set (map auth_user_id tbl) \<and> clerk_username_seed env jwt = Some seed"
  then show "\<exists>k. (\<forall>j<k. seed @ random_suffixes (random_draw env) 0 j \<in> set (map username tbl))
            \<and> seed @ random_suffixes (random_draw env) 0 k \<notin> set (map username tbl)
            \<and> get_or_create_user_profile env jwt tbl user_auth_id
                = insert_users tbl (gen_random_uuid env 0) (now env) (Some user_auth_id)
                    (Some (seed @ random_suffixes (random_draw env) 0 k))
                    (coalesce (jwt_email jwt) (Some (user_auth_id @ ''@clerk.local'')))
                    (clerk_full_name jwt)"
    using get_or_create_absent [of user_auth_id tbl env jwt seed] by simp
qed

theorem retry_usernames_witness:
  "insert_profile example_env taken_table colliding_signup 0 (initial_username colliding_signup)
       (derived_full_name colliding_signup) = Inl (Unique_violation Col_username)
   \<and> (\<exists>rest. fst (handle_new_user example_env taken_table colliding_signup)
         = Some ''jane_doe'' # Some ''jane_doe-9a8b7c6d-1'' # rest)
   \<and> handle_new_user example_env taken_table colliding_signup
       = ([Some ''jane_doe'', Some ''jane_doe-9a8b7c6d-1'', Some ''jane_doe-9a8b7c6d-2'',
           Some ''jane_doe-9a8b7c6d-3'', Some ''jane_doe-9a8b7c6d-4'', Some ''jane_doe-9a8b7c6d-5'',
           Some ''jane_doe-9a8b7c6d-6'', Some ''jane_doe-9a8b7c6d-7'', Some ''jane_doe-9a8b7c6d-8'',
           Some ''jane_doe-9a8b7c6d-9'', Some ''jane-9a8b7c6d000040008000123456789abc''],
          Inr (taken_table @ [fallback_row]))
   \<and> ''sub_123'' \<notin> set (map auth_user_id [jane_row])
   \<and> clerk_username_seed example_env name_only_claims = Some ''jane_doe''
   \<and> (\<exists>k. (\<forall>j<k. ''jane_doe'' @ random_suffixes (random_draw example_env) 0 j
                     \<in> set (map username [jane_row]))
         \<and> ''jane_doe'' @ random_suffixes (random_draw example_env) 0 k
              \<notin> set (map username [jane_row])
         \<and> get_or_create_user_profile example_env name_only_claims [jane_row] ''sub_123''
             = insert_users [jane_row] (gen_random_uuid example_env 0) (now example_env)
                 (Some ''sub_123'')
                 (Some (''jane_doe'' @ random_suffixes (random_draw example_env) 0 k))
                 (coalesce (jwt_email name_only_claims) (Some (''sub_123'' @ ''@clerk.local'')))
                 (clerk_full_name name_only_claims))
   \<and> get_or_create_user_profile example_env name_only_claims [jane_row] ''sub_123''
       = Inr (suffixed_row, [jane_row, suffixed_row])"
proof -
  note inst = retry_usernames [where env = example_env and new = colliding_signup
      and jwt = name_only_claims and user_auth_id = "''sub_123''" and seed = "''jane_doe''"]
  have absent: "''sub_123'' \<notin> set (map auth_user_id [jane_row])"
    by (simp add: jane_row_def)
  from inst [where tbl = taken_table, THEN conjunct1, THEN mp, OF taken_first]
  have first: "\<exists>rest. fst (handle_new_user example_env taken_table colliding_signup)
         = Some ''jane_doe'' # Some ''jane_doe-9a8b7c6d-1'' # rest"
    by (simp add: colliding_signup_fields concat_null_def)
  from inst [where tbl = taken_table, THEN conjunct2, THEN conjunct1, THEN mp, OF taken_all]
  have exhausted: "handle_new_user example_env taken_table colliding_signup
       = ([Some ''jane_doe'', Some ''jane_doe-9a8b7c6d-1'', Some ''jane_doe-9a8b7c6d-2'',
           Some ''jane_doe-9a8b7c6d-3'', Some ''jane_doe-9a8b7c6d-4'', Some ''jane_doe-9a8b7c6d-5'',
           Some ''jane_doe-9a8b7c6d-6'', Some ''jane_doe-9a8b7c6d-7'', Some ''jane_doe-9a8b7c6d-8'',
           Some ''jane_doe-9a8b7c6d-9'', Some ''jane-9a8b7c6d000040008000123456789abc''],
          Inr (taken_table @ [fallback_row]))"
    by (simp add: taken_fallback)
       (simp add: max_attempts_def upt_10 colliding_signup_fields retry_candidate_def
          unique_suffix_def concat_null_def sql_eval)
  from inst [where tbl = "[jane_row]", THEN conjunct2, THEN conjunct2, THEN mp,
      OF conjI [OF absent name_only_seed]]
  have clerk: "\<exists>k. (\<forall>j<k. ''jane_doe'' @ random_suffixes (random_draw example_env) 0 j
                     \<in> set (map username [jane_row]))
         \<and> ''jane_doe'' @ random_suffixes (random_draw example_env) 0 k
              \<notin> set (map username [jane_row])
         \<and> get_or_create_user_profile example_env name_only_claims [jane_row] ''sub_123''
             = insert_users [jane_row] (gen_random_uuid example_env 0) (now example_env)
                 (Some ''sub_123'')
                 (Some (''jane_doe'' @ random_suffixes (random_draw example_env) 0 k))
                 (coalesce (jwt_email name_only_claims) (Some (''sub_123'' @ ''@clerk.local'')))
                 (clerk_full_name name_only_claims)" .
  from taken_first first exhausted absent name_only_seed clerk name_only_collides
  show ?thesis
    by (intro conjI)
qed

theorem retry_usernames_counterexample:
  "map_sum (\<lambda>e. e) (\<lambda>(p, t). username p)
       (get_or_create_user_profile example_env name_only_claims [jane_row] ''sub_123'')
     = Inr ''jane_doe_7''
   \<and> spec_retry_username ''jane_doe'' (gen_random_uuid example_env 0) 1 = ''jane_doe-0f1e2d3c-1''
   \<and> ''jane_doe_7'' \<noteq> spec_retry_username ''jane_doe'' (gen_random_uuid example_env 0) 1
   \<and> fallback_username colliding_signup = Some ''jane-9a8b7c6d000040008000123456789abc''
   \<and> fallback_username colliding_signup
       \<noteq> Some (spec_fallback_username ''jane'' (new_id colliding_signup))"
  by (simp add: name_only_collides suffixed_row_def spec_retry_username_def
      spec_fallback_username_def fallback_username_def colliding_signup_fields example_env_fields
      sql_eval)

text \<open>
  C3 (the code departs from the claim). The handler \<^verbatim>\<open>WHEN unique_violation\<close> of the trigger
  does not look at the column: a sign-up whose email belongs to an existing profile, with a
  username that is free, is retried nine times with suffixed usernames and once more with
  the fallback username, every INSERT failing on the email, before the error reaches the
  caller.
\<close>

theorem email_collision_is_retried:
  "handle_new_user example_env [jane_row] same_email_signup =
     ([Some ''jane'', Some ''jane-9a8b7c6d-1'', Some ''jane-9a8b7c6d-2'', Some ''jane-9a8b7c6d-3'',
       Some ''jane-9a8b7c6d-4'', Some ''jane-9a8b7c6d-5'', Some ''jane-9a8b7c6d-6'',
       Some ''jane-9a8b7c6d-7'', Some ''jane-9a8b7c6d-8'', Some ''jane-9a8b7c6d-9'',
       Some ''jane-9a8b7c6d000040008000123456789abc''],
      Inl (Unique_violation Col_email))"
  by (simp add: handle_new_user_def insert_with_retry.simps insert_profile_def insert_users_def
      initial_username_def meta_value_def email_prefix_def unique_suffix_def construct_full_name_def
      fallback_username_def max_attempts_def example_env_def jane_row_def same_email_signup_def
      sql_eval)

text \<open>
  C4 (as amended). The trigger \<^verbatim>\<open>handle_new_user\<close> makes at most ten INSERTs in its loop, with
  the attempt counter going up from 0 one by one, then at most one fallback INSERT, eleven
  at most in all, and it always returns (the function is total). The loop of the Clerk
  function \<^verbatim>\<open>get_or_create_user_profile\<close> has no counter and no fixed bound; it ends all the
  same, after at most as many rounds as the table has rows, since every round lengthens
  the candidate.
\<close>

theorem retry_loops_terminate:
  "length (fst (handle_new_user env tbl new)) \<le> Suc max_attempts
   \<and> (\<exists>n. 0 < n \<and> n \<le> max_attempts
        \<and> (fst (handle_new_user env tbl new)
              = map (retry_candidate new (initial_username new)) [0..<n]
            \<or> fst (handle_new_user env tbl new)
              = map (retry_candidate new (initial_username new)) [0..<max_attempts]
                  @ [fallback_username new]))
   \<and> snd (ensure_unique_username rnd tbl u 0) \<le> length tbl"
proof -
  have pos: "0 < max_attempts"
    by (simp add: max_attempts_def)
  from insert_with_retry_trace [OF pos, of env tbl new "initial_username new"
      "meta_value new meta_full_name" "meta_value new meta_first_name" "meta_value new meta_last_name"]
  obtain n where n: "0 < n" "n \<le> max_attempts"
    and shape: "fst (handle_new_user env tbl new)
              = map (retry_candidate new (initial_username new)) [0..<n]
            \<or> fst (handle_new_user env tbl new)
              = map (retry_candidate new (initial_username new)) [0..<max_attempts]
                  @ [fallback_username new]"
    unfolding handle_new_user_def by blast
  from shape n have "length (fst (handle_new_user env tbl new)) \<le> Suc max_attempts"
    by auto
  with n shape ensure_unique_username_bounded [of rnd tbl u] show ?thesis
    by blast
qed

theorem retry_loops_terminate_counterexample:
  "snd (ensure_unique_username (random_draw example_env) collision_chain (Some ''a'') 0) = 11
   \<and> \<not> snd (ensure_unique_username (random_draw example_env) collision_chain (Some ''a'') 0)
         \<le> max_attempts"
  by (simp add: collision_chain_def chain_row_def ensure_unique_username.simps username_exists_def
      example_env_fields max_attempts_def sql_eval upt_rec)

text \<open>
  C5 (the code departs from the claim). The Clerk function has no branch for a family name
  alone: with claims \<^verbatim>\<open>{family_name: "Doe", email: "jane@x.com"}\<close> and no row for the subject it
  stores the display name \<^verbatim>\<open>jane\<close>, the local part of the email, where the claimed
  precedence (\<open>spec_display_name\<close>) gives \<^verbatim>\<open>Doe\<close>. The trigger \<^verbatim>\<open>handle_new_user\<close> has the
  branch and follows the claimed precedence (\<open>trigger_display_name_precedence\<close>).
\<close>

theorem clerk_family_name_alone_ignored:
  "get_or_create_user_profile env
     \<lparr>jwt_email = Some ''jane@x.com'', jwt_given_name = None, jwt_family_name = Some ''Doe'',
      jwt_name = None\<rparr>
     [] ''sub_123'' =
   Inr (\<lparr>row_id = gen_random_uuid env 0, auth_user_id = ''sub_123'',
         username = lower env ''jane'', email = ''jane@x.com'', full_name = Some ''jane'',
         created_at = now env, updated_at = now env\<rparr>,
        [\<lparr>row_id = gen_random_uuid env 0, auth_user_id = ''sub_123'',
          username = lower env ''jane'', email = ''jane@x.com'', full_name = Some ''jane'',
          created_at = now env, updated_at = now env\<rparr>])
   \<and> spec_display_name None None (Some ''Doe'') ''jane@x.com'' = ''Doe''"
  by (simp add: clerk_eval sql_eval spec_display_name_def)

text \<open>
  C6 (as amended). In the trigger \<^verbatim>\<open>handle_new_user\<close> the username of the first INSERT is the
  \<^verbatim>\<open>username\<close> of the metadata when it is present (not blank, trimmed), and the local part of
  the email otherwise. The Clerk function \<^verbatim>\<open>get_or_create_user_profile\<close> reads no username
  claim: its seed is the display name it derived, in lower case with every space replaced
  by an underscore, so a created profile's username is that form of its own
  \<^verbatim>\<open>full_name\<close>, followed by what the loop appended.
\<close>

theorem username_seed_sources:
  "(new_email new = Some e
      \<longrightarrow> (\<exists>rest. fst (handle_new_user env tbl new)
             = Some (spec_username_seed (meta_value new meta_username) e) # rest))
   \<and> clerk_username_seed env jwt
       = map_option (\<lambda>n. lower env (replace_char (CHR '' '') ''_'' n)) (clerk_full_name jwt)
   \<and> (user_auth_id \<notin> set (map auth_user_id tbl)
        \<and> get_or_create_user_profile env jwt tbl user_auth_id = Inr (p, tbl')
      \<longrightarrow> (\<exists>n k. full_name p = Some n
             \<and> username p = lower env (replace_char (CHR '' '') ''_'' n)
                              @ random_suffixes (random_draw env) 0 k))"
proof (intro conjI impI)
  assume e: "new_email new = Some e"
  have pos: "0 < max_attempts"
    by (simp add: max_attempts_def)
  from insert_with_retry_trace [OF pos, of env tbl new "initial_username new"
      "meta_value new meta_full_name" "meta_value new meta_first_name" "meta_value new meta_last_name"]
  obtain rest where "fst (handle_new_user env tbl new) = initial_username new # rest"
    unfolding handle_new_user_def by (auto simp: upt_conv_Cons retry_candidate_0)
  moreover from e have "initial_username new = Some (spec_username_seed (meta_value new meta_username) e)"
    by (simp add: initial_username_def spec_username_seed_def email_prefix_def split: option.splits)
  ultimately show "\<exists>rest. fst (handle_new_user env tbl new)
             = Some (spec_username_seed (meta_value new meta_username) e) # rest"
    by simp
next
  show "clerk_username_seed env jwt
       = map_option (\<lambda>n. lower env (replace_char (CHR '' '') ''_'' n)) (clerk_full_name jwt)"
    by (rule clerk_username_seed_from_full_name)
next
  assume h: "user_auth_id \<notin> set (map auth_user_id tbl)
        \<and> get_or_create_user_profile env jwt tbl user_auth_id = Inr (p, tbl')"
  with created_username_shape [of user_auth_id tbl env jwt p tbl']
  obtain seed k where seed: "clerk_username_seed env jwt = Some seed"
    and u: "username p = seed @ random_suffixes (random_draw env) 0 k"
    by blast
  from h get_or_create_created [of user_auth_id tbl env jwt p tbl']
  have f: "full_name p = clerk_full_name jwt"
    by simp
  from seed obtain n where n: "clerk_full_name jwt = Some n"
    and "seed = lower env (replace_char (CHR '' '') ''_'' n)"
    by (auto simp: clerk_username_seed_from_full_name)
  with u f show "\<exists>n k. full_name p = Some n
             \<and> username p = lower env (replace_char (CHR '' '') ''_'' n)
                              @ random_suffixes (random_draw env) 0 k"
    by auto
qed

theorem username_seed_sources_witness:
  "new_email colliding_signup = Some ''jane@x.com''
   \<and> meta_value colliding_signup meta_username = Some ''jane_doe''
   \<and> (\<exists>rest. fst (handle_new_user example_env [] colliding_signup) = Some ''jane_doe'' # rest)
   \<and> new_email same_email_signup = Some ''jane@x.com''
   \<and> meta_value same_email_signup meta_username = None
   \<and> (\<exists>rest. fst (handle_new_user example_env [] same_email_signup) = Some ''jane'' # rest)
   \<and> ''sub_123'' \<notin> set (map auth_user_id [])
   \<and> get_or_create_user_profile example_env name_only_claims [] ''sub_123''
       = Inr (created_row, [created_row])
   \<and> (\<exists>n k. full_name created_row = Some n
         \<and> username created_row = lower example_env (replace_char (CHR '' '') ''_'' n)
                                    @ random_suffixes (random_draw example_env) 0 k)"
proof -
  have m1: "meta_value colliding_signup meta_username = Some ''jane_doe''"
    by (simp add: meta_value_def colliding_signup_def sql_eval)
  have m2: "meta_value same_email_signup meta_username = None"
    by (simp add: meta_value_def same_email_signup_def)
  have absent: "''sub_123'' \<notin> set (map auth_user_id [])"
    by simp
  from username_seed_sources [where new = colliding_signup and e = "''jane@x.com''"
      and env = example_env and tbl = "[]", THEN conjunct1, THEN mp, OF colliding_signup_fields(2)]
  have a: "\<exists>rest. fst (handle_new_user example_env [] colliding_signup) = Some ''jane_doe'' # rest"
    by (simp add: m1 spec_username_seed_def)
  from username_seed_sources [where new = same_email_signup and e = "''jane@x.com''"
      and env = example_env and tbl = "[]", THEN conjunct1, THEN mp, OF same_email_signup_fields(2)]
  have b: "\<exists>rest. fst (handle_new_user example_env [] same_email_signup) = Some ''jane'' # rest"
    by (simp add: m2 spec_username_seed_def split_part_at_def)
  from username_seed_sources [where env = example_env and tbl = "[]" and jwt = name_only_claims
      and user_auth_id = "''sub_123''" and p = created_row and tbl' = "[created_row]",
      THEN conjunct2, THEN conjunct2, THEN mp, OF conjI [OF absent name_only_creates_row]]
  have c: "\<exists>n k. full_name created_row = Some n
         \<and> username created_row = lower example_env (replace_char (CHR '' '') ''_'' n)
                                    @ random_suffixes (random_draw example_env) 0 k"
    by simp
  from colliding_signup_fields(2) m1 a same_email_signup_fields(2) m2 b absent
    name_only_creates_row c
  show ?thesis
    by simp
qed

theorem username_seed_sources_counterexample:
  "get_or_create_user_profile example_env jane_claims [] ''sub_123''
     = Inr (jane_created, [jane_created])
   \<and> username jane_created = ''jane_doe''
   \<and> spec_username_seed None ''jane@x.com'' = ''jane''
   \<and> username jane_created \<noteq> spec_username_seed None ''jane@x.com''"
  by (simp add: clerk_eval sql_eval example_env_def jane_claims_def jane_created_def
      spec_username_seed_def)

text \<open>
  C7 (the code departs from the claim). The placeholder is formed by
  \<^verbatim>\<open>COALESCE(_email, user_auth_id || '@clerk.local')\<close>, which replaces a NULL email only
  (\<open>null_email_placeholder\<close>). An email claim that is present but empty or blank also lacks
  an email, and there the function stores the claim as it is: the created profile's email
  is the empty string, or the blank, and does not contain the subject id. The same function
  treats an empty \<^verbatim>\<open>name\<close> claim as missing.
\<close>

theorem blank_email_stored_as_is:
  "get_or_create_user_profile env
     \<lparr>jwt_email = Some [], jwt_given_name = None, jwt_family_name = None,
      jwt_name = Some ''Jane''\<rparr>
     [] ''sub_123'' =
   Inr (\<lparr>row_id = gen_random_uuid env 0, auth_user_id = ''sub_123'',
         username = lower env ''Jane'', email = [], full_name = Some ''Jane'',
         created_at = now env, updated_at = now env\<rparr>,
        [\<lparr>row_id = gen_random_uuid env 0, auth_user_id = ''sub_123'',
          username = lower env ''Jane'', email = [], full_name = Some ''Jane'',
          created_at = now env, updated_at = now env\<rparr>])
   \<and> get_or_create_user_profile env
     \<lparr>jwt_email = Some '' '', jwt_given_name = None, jwt_family_name = None,
      jwt_name = Some ''Jane''\<rparr>
     [] ''sub_123'' =
   Inr (\<lparr>row_id = gen_random_uuid env 0, auth_user_id = ''sub_123'',
         username = lower env ''Jane'', email = '' '', full_name = Some ''Jane'',
         created_at = now env, updated_at = now env\<rparr>,
        [\<lparr>row_id = gen_random_uuid env 0, auth_user_id = ''sub_123'',
          username = lower env ''Jane'', email = '' '', full_name = Some ''Jane'',
          created_at = now env, updated_at = now env\<rparr>])"
  by (simp add: clerk_eval sql_eval)

text \<open>
  C8 (the code departs from the claim). With an empty claims bag, subject \<^verbatim>\<open>sub_123\<close> and
  no row, the function creates no profile: the display name and the username are derived
  from the email claim, which is NULL, before the placeholder email is formed, so the
  INSERT is refused for a NULL username.
\<close>

theorem empty_claims_not_null_violation:
  "get_or_create_user_profile env
     \<lparr>jwt_email = None, jwt_given_name = None, jwt_family_name = None, jwt_name = None\<rparr>
     [] ''sub_123'' = Inl (Not_null_violation Col_username)"
  by (simp add: clerk_eval coalesce_def)

text \<open>
  C9. If the table holds a profile for the subject (the column \<^verbatim>\<open>auth_user_id\<close> being
  unique), the function returns that very row, every field as stored, and the table after
  the call is the table before it.
\<close>

theorem existing_profile_read_only:
  assumes "distinct (map auth_user_id tbl)"
    and "r \<in> set tbl"
    and "auth_user_id r = user_auth_id"
  shows "get_or_create_user_profile env jwt tbl user_auth_id = Inr (r, tbl)"
  using find_distinct_key [of auth_user_id tbl r] assms
  by (simp add: get_or_create_user_profile_def)

theorem existing_profile_read_only_witness:
  "distinct (map auth_user_id [jane_row, suffixed_row])
   \<and> suffixed_row \<in> set [jane_row, suffixed_row]
   \<and> auth_user_id suffixed_row = ''sub_123''
   \<and> get_or_create_user_profile example_env name_only_claims [jane_row, suffixed_row] ''sub_123''
       = Inr (suffixed_row, [jane_row, suffixed_row])"
proof -
  have d: "distinct (map auth_user_id [jane_row, suffixed_row])"
    by (simp add: jane_row_def suffixed_row_def)
  have m: "suffixed_row \<in> set [jane_row, suffixed_row]"
    by simp
  have k: "auth_user_id suffixed_row = ''sub_123''"
    by (simp add: suffixed_row_def)
  from d m k existing_profile_read_only [OF d m k, of example_env name_only_claims]
  show ?thesis
    by simp
qed

text \<open>
  C10. \<^verbatim>\<open>getUserProfile\<close> never throws: whatever the client factory and the RPC do, the
  call completes normally. When the factory throws, when the RPC throws (its promise
  rejects), and when the RPC answers with an error, the value is \<^verbatim>\<open>null\<close>.
\<close>

theorem getUserProfile_never_throws:
  "(\<exists>r. getUserProfile mk rpc uid = Normal r)
   \<and> (mk () = Throw x \<longrightarrow> getUserProfile mk rpc uid = Normal None)
   \<and> (mk () = Normal c \<and> rpc c uid = Throw x \<longrightarrow> getUserProfile mk rpc uid = Normal None)
   \<and> (mk () = Normal c \<and> rpc c uid = Normal resp \<and> error resp \<noteq> None
        \<longrightarrow> getUserProfile mk rpc uid = Normal None)"
  by (auto simp: getUserProfile_def try_catch_def bind_completion_def split: completion.splits)

theorem getUserProfile_never_throws_witness:
  "getUserProfile (\<lambda>u. Throw ''no session'') (\<lambda>c i. Normal \<lparr>data = Some i, error = None\<rparr>)
      ''user_2abc'' = (Normal None :: (string option, unit) completion)
   \<and> getUserProfile (\<lambda>u. Normal ()) (\<lambda>c i. Throw ''fetch failed'') ''user_2abc''
      = (Normal None :: (string option, unit) completion)
   \<and> getUserProfile (\<lambda>u. Normal ()) (\<lambda>c i. Normal \<lparr>data = None, error = Some ''23502''\<rparr>)
      ''user_2abc'' = (Normal None :: (string option, unit) completion)"
proof -
  have factory:
    "getUserProfile (\<lambda>u. Throw ''no session'') (\<lambda>c i. Normal \<lparr>data = Some i, error = None\<rparr>)
       ''user_2abc'' = (Normal None :: (string option, unit) completion)"
    by (rule getUserProfile_never_throws [THEN conjunct2, THEN conjunct1, THEN mp]) simp
  have rejected:
    "getUserProfile (\<lambda>u. Normal ()) (\<lambda>c i. Throw ''fetch failed'') ''user_2abc''
       = (Normal None :: (string option, unit) completion)"
    by (rule getUserProfile_never_throws
          [where c = "()", THEN conjunct2, THEN conjunct2, THEN conjunct1, THEN mp]) simp
  have answered:
    "getUserProfile (\<lambda>u. Normal ()) (\<lambda>c i. Normal \<lparr>data = None, error = Some ''23502''\<rparr>)
       ''user_2abc'' = (Normal None :: (string option, unit) completion)"
    by (rule getUserProfile_never_throws
          [where c = "()" and resp = "\<lparr>data = None, error = Some ''23502''\<rparr>",
           THEN conjunct2, THEN conjunct2, THEN conjunct2, THEN mp]) simp
  from factory rejected answered show ?thesis
    by simp
qed

end
